theory Spec2Isabelle
  imports Main
begin

section \<open>Python values, exceptions and the cached tables\<close>

text \<open>
  Embedding of \<^verbatim>\<open>src/asreview/state/hdf5.py\<close> (class \<^verbatim>\<open>HDF5State\<close>) and of
  \<^verbatim>\<open>BaseState.__exit__\<close> from \<^verbatim>\<open>src/asreview/state/base.py\<close>.
  Method names keep the source's names without the leading underscore, which an
  Isabelle identifier cannot carry (\<^verbatim>\<open>_get_dataset\<close> is \<open>get_dataset\<close>).

  A table cell or a record identifier is a Python integer or a Python string.
  Every exception the modelled methods can raise is a value of \<open>py_error\<close>; a method
  that can raise returns \<open>py_error + 'a\<close>, with \<open>Inl\<close> for the exception.
\<close>

datatype cell = IntV int | StrV string

datatype py_error = ValueError | KeyError | TypeError | IndexError | AttributeError

text \<open>
  \<^verbatim>\<open>self.results\<close> is a pandas DataFrame: named columns and rows. A row maps a column
  name to its cell; only the names listed in \<open>columns\<close> are columns of the frame.
  \<^verbatim>\<open>df[name]\<close> raises \<^verbatim>\<open>KeyError\<close> for a name that is not a column.
\<close>

record dataframe =
  columns :: "string list"
  rows :: "(string \<Rightarrow> cell) list"

definition df_col :: "dataframe \<Rightarrow> string \<Rightarrow> py_error + cell list" where
  "df_col df c = (if c \<in> set (columns df) then Inr (map (\<lambda>r. r c) (rows df)) else Inl KeyError)"

text \<open>
  The container handle \<^verbatim>\<open>self.f\<close> is a \<^verbatim>\<open>zipfile.ZipFile\<close>: \<^verbatim>\<open>_create_new_state_file\<close> and
  \<^verbatim>\<open>_restore\<close>, the only statements that assign it, open the container with
  \<^verbatim>\<open>zipfile.ZipFile(fp, mode)\<close>. Of the archive the model keeps whether it is open. The
  methods address the handle in three ways:
  \<^item> \<^verbatim>\<open>self.f.attrs\<close> and \<^verbatim>\<open>self.f.create_group\<close>: a ZipFile has no attribute of these
    names, so the expression raises \<^verbatim>\<open>AttributeError\<close>;
  \<^item> \<^verbatim>\<open>self.f[key]\<close>: a ZipFile defines no \<^verbatim>\<open>__getitem__\<close>, so the expression raises
    \<^verbatim>\<open>TypeError\<close>;
  \<^item> \<^verbatim>\<open>self.f.close()\<close> closes the archive.

  An expression that raises on every ZipFile is modelled by the exception it raises.
\<close>

record zipfile =
  is_open :: bool

definition zip_getattr :: "zipfile \<Rightarrow> string \<Rightarrow> py_error" where
  "zip_getattr z name = AttributeError"

definition zip_subscript :: "zipfile \<Rightarrow> string \<Rightarrow> py_error" where
  "zip_subscript z key = TypeError"

definition zip_close :: "zipfile \<Rightarrow> zipfile" where
  "zip_close z = z\<lparr>is_open := False\<rparr>"

record state =
  read_only :: bool
  f :: zipfile
  settings_metadata :: "string \<rightharpoonup> cell"
  results :: dataframe
  record_table :: "cell list"

definition LATEST_HDF5STATE_VERSION :: string where
  "LATEST_HDF5STATE_VERSION = ''1.1''"

definition RESULTS_TABLE_COLUMNS :: "string list" where
  "RESULTS_TABLE_COLUMNS =
     [''indices'', ''labels'', ''predictor_classifiers'', ''predictor_query_strategies'',
      ''predictor_balance_strategies'', ''predictor_feature_extraction'',
      ''predictor_training_sets'', ''labeling_times'']"

text \<open>\<^verbatim>\<open>_is_valid_state\<close>: the first required column that is missing raises \<^verbatim>\<open>KeyError\<close>.\<close>

definition is_valid_state :: "state \<Rightarrow> py_error + unit" where
  "is_valid_state s =
     (if list_all (\<lambda>dataset. dataset \<in> set (columns (results s))) RESULTS_TABLE_COLUMNS
      then Inr () else Inl KeyError)"

section \<open>Derived quantities of the log\<close>

definition n_records_labeled :: "state \<Rightarrow> nat" where
  "n_records_labeled s = length (rows (results s))"

text \<open>
  \<^verbatim>\<open>n_priors\<close>: \<^verbatim>\<open>list(self.results['predictor_query_strategies']).count('prior')\<close>, and
  \<^verbatim>\<open>None\<close> in place of 0.
\<close>

definition n_priors :: "state \<Rightarrow> py_error + nat option" where
  "n_priors s =
     (case df_col (results s) ''predictor_query_strategies'' of
        Inl e \<Rightarrow> Inl e
      | Inr qs \<Rightarrow>
          (let n = count_list qs (StrV ''prior'') in
           Inr (if n = 0 then None else Some n)))"

text \<open>
  The spec's prior block: the first contiguous run of rows whose strategy is "prior".
  \<open>prior_rows\<close> are the rows with that strategy anywhere in the log.
\<close>

definition is_prior :: "(string \<Rightarrow> cell) \<Rightarrow> bool" where
  "is_prior r = (r ''predictor_query_strategies'' = StrV ''prior'')"

definition leading_prior_run :: "state \<Rightarrow> nat" where
  "leading_prior_run s = length (takeWhile is_prior (rows (results s)))"

definition prior_rows :: "state \<Rightarrow> (string \<Rightarrow> cell) list" where
  "prior_rows s = filter is_prior (rows (results s))"

definition rows_after_leading_run :: "state \<Rightarrow> (string \<Rightarrow> cell) list" where
  "rows_after_leading_run s = dropWhile is_prior (rows (results s))"








text \<open>A list comprehension whose body can raise: the first exception ends it.\<close>

fun mapM :: "('a \<Rightarrow> py_error + 'b) \<Rightarrow> 'a list \<Rightarrow> py_error + 'b list" where
  "mapM g [] = Inr []"
| "mapM g (x # xs) =
     (case g x of
        Inl e \<Rightarrow> Inl e
      | Inr y \<Rightarrow> (case mapM g xs of Inl e \<Rightarrow> Inl e | Inr ys \<Rightarrow> Inr (y # ys)))"












section \<open>Record index\<close>

text \<open>
  \<^verbatim>\<open>np.where(xs == v)[0]\<close>: the positions holding \<open>v\<close>, ascending.
\<close>

definition np_where_eq :: "'a list \<Rightarrow> 'a \<Rightarrow> nat list" where
  "np_where_eq xs v = filter (\<lambda>j. xs ! j = v) [0..<length xs]"

text \<open>
  \<^verbatim>\<open>_record_id_to_row_index\<close>: \<^verbatim>\<open>np.where(self.record_table == record_id)[0][0]\<close>; the
  final \<^verbatim>\<open>[0]\<close> raises \<^verbatim>\<open>IndexError\<close> when no position matches.
\<close>

definition record_id_to_row_index :: "state \<Rightarrow> cell \<Rightarrow> py_error + nat" where
  "record_id_to_row_index s record_id =
     (case np_where_eq (record_table s) record_id of
        [] \<Rightarrow> Inl IndexError
      | j # _ \<Rightarrow> Inr j)"



section \<open>Column accessors\<close>

text \<open>
  What \<^verbatim>\<open>_get_dataset\<close> indexes the column with: \<^verbatim>\<open>range(n)\<close>, the one-element list
  \<^verbatim>\<open>[i]\<close>, or the array of positions \<^verbatim>\<open>np.where\<close> returned.
\<close>

datatype positions = Range nat | Single int | Where "nat list"

text \<open>\<^verbatim>\<open>range(n)\<close> with \<^verbatim>\<open>n\<close> the value of \<^verbatim>\<open>n_priors\<close>: \<^verbatim>\<open>range(None)\<close> raises \<^verbatim>\<open>TypeError\<close>.\<close>

fun py_range :: "nat option \<Rightarrow> py_error + positions" where
  "py_range None = Inl TypeError"
| "py_range (Some n) = Inr (Range n)"

text \<open>\<^verbatim>\<open>[query + self.n_priors - 1]\<close>: adding \<^verbatim>\<open>None\<close> to an integer raises \<^verbatim>\<open>TypeError\<close>.\<close>

fun query_row :: "int \<Rightarrow> nat option \<Rightarrow> py_error + positions" where
  "query_row query None = Inl TypeError"
| "query_row query (Some n) = Inr (Single (query + int n - 1))"

text \<open>
  \<^verbatim>\<open>np.array(xs)[[i]]\<close> for one Python integer \<open>i\<close>. numpy turns the list into an index
  array: of type int64 when \<open>-2^63 \<le> i < 2^63\<close>; of type uint64 when \<open>2^63 \<le> i < 2^64\<close>,
  which is then cast to int64 and so stands for \<open>i - 2^64\<close>; an array of objects for any
  other integer, which is refused as an index with \<^verbatim>\<open>IndexError\<close>. An int64 position in
  \<open>[-n, n)\<close> selects a cell, a negative one counted from the end; one outside raises
  \<^verbatim>\<open>IndexError\<close>. An array has fewer than \<open>2^63\<close> cells, so a position in \<open>[-n, n)\<close> selects
  as it is, a position in \<open>[2^64 - n, 2^64)\<close> selects as \<open>i - 2^64\<close>, and every other
  position raises \<^verbatim>\<open>IndexError\<close>.
\<close>

definition np_index_one :: "'a list \<Rightarrow> int \<Rightarrow> py_error + 'a list" where
  "np_index_one xs i =
     (let n = int (length xs) in
      if - n \<le> i \<and> i < n then Inr [xs ! nat (if i < 0 then i + n else i)]
      else if 2 ^ 64 - n \<le> i \<and> i < 2 ^ 64 then Inr [xs ! nat (i - 2 ^ 64 + n)]
      else Inl IndexError)"

text \<open>
  \<^verbatim>\<open>np.array(xs)[positions]\<close>: \<^verbatim>\<open>range(n)\<close> selects the first \<open>n\<close> cells and raises
  \<^verbatim>\<open>IndexError\<close> when the array is shorter; positions from \<^verbatim>\<open>np.where\<close> select their cells.
\<close>

definition np_index :: "'a list \<Rightarrow> positions \<Rightarrow> py_error + 'a list" where
  "np_index xs ps =
     (case ps of
        Range n \<Rightarrow> if n \<le> length xs then Inr (take n xs) else Inl IndexError
      | Single i \<Rightarrow> np_index_one xs i
      | Where js \<Rightarrow>
          if list_all (\<lambda>j. j < length xs) js then Inr (map (\<lambda>j. xs ! j) js)
          else Inl IndexError)"

text \<open>The \<^verbatim>\<open>if query is not None / elif record_id is not None / else\<close> chain of \<^verbatim>\<open>_get_dataset\<close>.\<close>

definition dataset_slice :: "state \<Rightarrow> int option \<Rightarrow> cell option \<Rightarrow> py_error + positions" where
  "dataset_slice s query record_id =
     (case query of
        Some q \<Rightarrow>
          (case n_priors s of
             Inl e \<Rightarrow> Inl e
           | Inr np \<Rightarrow> if q = 0 then py_range np else query_row q np)
      | None \<Rightarrow>
          (case record_id of
             Some rid \<Rightarrow>
               (case record_id_to_row_index s rid of
                  Inl e \<Rightarrow> Inl e
                | Inr idx \<Rightarrow>
                    (case df_col (results s) ''indices'' of
                       Inl e \<Rightarrow> Inl e
                     | Inr ixs \<Rightarrow> Inr (Where (np_where_eq ixs (IntV (int idx))))))
           | None \<Rightarrow> Inr (Range (n_records_labeled s))))"

definition get_dataset :: "state \<Rightarrow> string \<Rightarrow> int option \<Rightarrow> cell option \<Rightarrow> py_error + cell list" where
  "get_dataset s results_column query record_id =
     (if query \<noteq> None \<and> record_id \<noteq> None then Inl ValueError
      else
        (case dataset_slice s query record_id of
           Inl e \<Rightarrow> Inl e
         | Inr sl \<Rightarrow>
             (case df_col (results s) results_column of
                Inl e \<Rightarrow> Inl e
              | Inr col \<Rightarrow> np_index col sl)))"

definition get_labels :: "state \<Rightarrow> int option \<Rightarrow> cell option \<Rightarrow> py_error + cell list" where
  "get_labels s query record_id = get_dataset s ''labels'' query record_id"

definition get_predictor_classifiers :: "state \<Rightarrow> int option \<Rightarrow> cell option \<Rightarrow> py_error + cell list" where
  "get_predictor_classifiers s query record_id =
     get_dataset s ''predictor_classifiers'' query record_id"

definition get_predictor_query_strategies :: "state \<Rightarrow> int option \<Rightarrow> cell option \<Rightarrow> py_error + cell list" where
  "get_predictor_query_strategies s query record_id =
     get_dataset s ''predictor_query_strategies'' query record_id"

definition get_predictor_balance_strategies :: "state \<Rightarrow> int option \<Rightarrow> cell option \<Rightarrow> py_error + cell list" where
  "get_predictor_balance_strategies s query record_id =
     get_dataset s ''predictor_balance_strategies'' query record_id"

definition get_predictor_feature_extraction :: "state \<Rightarrow> int option \<Rightarrow> cell option \<Rightarrow> py_error + cell list" where
  "get_predictor_feature_extraction s query record_id =
     get_dataset s ''predictor_feature_extraction'' query record_id"

definition get_predictor_training_sets :: "state \<Rightarrow> int option \<Rightarrow> cell option \<Rightarrow> py_error + cell list" where
  "get_predictor_training_sets s query record_id =
     get_dataset s ''predictor_training_sets'' query record_id"

text \<open>
  \<^verbatim>\<open>get_labeling_time\<close>. The conversion \<^verbatim>\<open>datetime.utcfromtimestamp(time/10**6)\<close> to
  \<^verbatim>\<open>np.datetime64\<close> is a parameter \<open>utc\<close> (it divides floating-point numbers and can
  raise). \<^verbatim>\<open>query == 0\<close> is false when \<^verbatim>\<open>query\<close> is \<^verbatim>\<open>None\<close>.
\<close>

definition get_labeling_time ::
  "(cell \<Rightarrow> py_error + cell) \<Rightarrow> state \<Rightarrow> int option \<Rightarrow> cell option \<Rightarrow> string \<Rightarrow> py_error + cell list"
where
  "get_labeling_time utc s query record_id format =
     (case get_dataset s ''labeling_times'' query record_id of
        Inl e \<Rightarrow> Inl e
      | Inr tms \<Rightarrow>
          (case (if format = ''datetime'' then mapM utc tms else Inr tms) of
             Inl e \<Rightarrow> Inl e
           | Inr tms' \<Rightarrow>
               if query = Some 0
               then (case n_priors s of
                       Inl e \<Rightarrow> Inl e
                     | Inr None \<Rightarrow> Inl TypeError
                     | Inr (Some n) \<Rightarrow> np_index tms' (Single (int n - 1)))
               else Inr tms'))"

section \<open>Format version\<close>

text \<open>
  The \<^verbatim>\<open>version\<close> property: a missing key is turned into \<^verbatim>\<open>AttributeError\<close>.
\<close>

definition version :: "state \<Rightarrow> py_error + cell" where
  "version s =
     (case settings_metadata s ''version'' of
        None \<Rightarrow> Inl AttributeError
      | Some v \<Rightarrow> Inr v)"

text \<open>
  \<^verbatim>\<open>x[0]\<close>: the first character of a string, as a string; \<^verbatim>\<open>IndexError\<close> on the empty
  string, \<^verbatim>\<open>TypeError\<close> on an integer.
\<close>

fun py_first :: "cell \<Rightarrow> py_error + string" where
  "py_first (StrV []) = Inl IndexError"
| "py_first (StrV (c # cs)) = Inr [c]"
| "py_first (IntV i) = Inl TypeError"

text \<open>
  \<^verbatim>\<open>_is_valid_version\<close>: \<^verbatim>\<open>self.version[0] == LATEST_HDF5STATE_VERSION[0]\<close>. The
  comparison is written once for any supported version string \<open>latest\<close> and then
  applied to the module's constant.
\<close>

definition is_valid_version_for :: "string \<Rightarrow> state \<Rightarrow> py_error + bool" where
  "is_valid_version_for latest s =
     (case version s of
        Inl e \<Rightarrow> Inl e
      | Inr v \<Rightarrow>
          (case py_first v of
             Inl e \<Rightarrow> Inl e
           | Inr a \<Rightarrow>
               (case py_first (StrV latest) of
                  Inl e \<Rightarrow> Inl e
                | Inr b \<Rightarrow> Inr (a = b))))"

definition is_valid_version :: "state \<Rightarrow> py_error + bool" where
  "is_valid_version s = is_valid_version_for LATEST_HDF5STATE_VERSION s"

text \<open>The spec's major version token: the full component before the first dot.\<close>

definition major_token :: "string \<Rightarrow> string" where
  "major_token v = takeWhile (\<lambda>c. c \<noteq> CHR ''.'') v"

section \<open>Appending labeling actions\<close>

text \<open>
  A method that mutates the state and can raise returns the exception or \<open>()\<close>
  together with the state as the call leaves it: what was written before an exception
  stays written. \<open>run_steps\<close> runs statements in order and stops at the first one that
  raises.
\<close>

fun run_steps :: "('st \<Rightarrow> (py_error + unit) \<times> 'st) list \<Rightarrow> 'st \<Rightarrow> (py_error + unit) \<times> 'st" where
  "run_steps [] st = (Inr (), st)"
| "run_steps (step # steps) st =
     (case step st of
        (Inl e, st') \<Rightarrow> (Inl e, st')
      | (Inr u, st') \<Rightarrow> run_steps steps st')"

text \<open>
  \<^verbatim>\<open>_append_to_dataset\<close>: its first statement, \<^verbatim>\<open>results = self.f['results']\<close>, subscripts
  the ZipFile and raises \<^verbatim>\<open>TypeError\<close>; the resize and the write behind it are never
  reached.
\<close>

definition append_to_dataset :: "string \<Rightarrow> cell list \<Rightarrow> state \<Rightarrow> (py_error + unit) \<times> state" where
  "append_to_dataset dataset vals s = (Inl (zip_subscript (f s) ''results''), s)"

text \<open>\<^verbatim>\<open>add_labeling_data\<close>.\<close>

definition add_labeling_data ::
  "state \<Rightarrow> cell list \<Rightarrow> cell list \<Rightarrow> cell list \<Rightarrow> cell list \<Rightarrow> cell list \<Rightarrow> cell list
     \<Rightarrow> (py_error + unit) \<times> state"
where
  "add_labeling_data s record_ids labels models methods training_sets labeling_times =
     (case is_valid_state s of
        Inl e \<Rightarrow> (Inl e, s)
      | Inr u \<Rightarrow>
          (let lengths = [length record_ids, length labels, length models, length methods,
                          length training_sets, length labeling_times]
           in if card (set lengths) \<noteq> 1 then (Inl ValueError, s)
              else
                (case mapM (record_id_to_row_index s) record_ids of
                   Inl e \<Rightarrow> (Inl e, s)
                 | Inr indices \<Rightarrow>
                     run_steps
                       [append_to_dataset ''indices'' (map (\<lambda>j. IntV (int j)) indices),
                        append_to_dataset ''labels'' labels,
                        append_to_dataset ''predictor_models'' models,
                        append_to_dataset ''predictor_methods'' methods,
                        append_to_dataset ''predictor_training_sets'' training_sets,
                        append_to_dataset ''labeling_times'' labeling_times] s)))"

section \<open>Feature matrix cache\<close>


datatype feature_matrix =
    NdArray "int list list"
  | CsrMatrix "int list" "int list" "int \<times> int" "int list"
  | OtherMatrix "int list list"


section \<open>Closing the session\<close>

text \<open>
  \<^verbatim>\<open>close\<close>; \<open>now\<close> is the value of \<^verbatim>\<open>datetime.now()\<close> at the call (microseconds). When the
  session is not read-only, \<^verbatim>\<open>self.f.attrs['end_time'] = np.string_(datetime.now())\<close> runs
  first: \<^verbatim>\<open>self.f.attrs\<close> raises \<^verbatim>\<open>AttributeError\<close>, and \<^verbatim>\<open>self.f.close()\<close> behind it is not
  reached. \<^verbatim>\<open>BaseState.__exit__\<close> ignores its arguments and calls \<^verbatim>\<open>close\<close>.
\<close>

definition set_end_time :: "int \<Rightarrow> state \<Rightarrow> (py_error + unit) \<times> state" where
  "set_end_time now s = (Inl (zip_getattr (f s) ''attrs''), s)"

definition close_handle :: "state \<Rightarrow> (py_error + unit) \<times> state" where
  "close_handle s = (Inr (), s\<lparr>f := zip_close (f s)\<rparr>)"

definition close :: "int \<Rightarrow> state \<Rightarrow> (py_error + unit) \<times> state" where
  "close now s =
     run_steps ((if \<not> read_only s then [set_end_time now] else []) @ [close_handle]) s"

definition exit_state :: "int \<Rightarrow> state \<Rightarrow> (py_error + unit) \<times> state" where
  "exit_state now s = close now s"

section \<open>Example sessions\<close>

text \<open>
  A session as \<^verbatim>\<open>_create_new_state_file\<close> leaves it (read-write, open handle, metadata
  with version \<^verbatim>\<open>"1.1"\<close>, a results table with the eight columns), given a record table
  and the rows of the log.
\<close>

definition log_row ::
  "int \<Rightarrow> int \<Rightarrow> string \<Rightarrow> string \<Rightarrow> string \<Rightarrow> string \<Rightarrow> int \<Rightarrow> int \<Rightarrow> string \<Rightarrow> cell"
where
  "log_row idx lbl clf qs bal fe tr tm =
     (\<lambda>c. if c = ''indices'' then IntV idx
          else if c = ''labels'' then IntV lbl
          else if c = ''predictor_classifiers'' then StrV clf
          else if c = ''predictor_query_strategies'' then StrV qs
          else if c = ''predictor_balance_strategies'' then StrV bal
          else if c = ''predictor_feature_extraction'' then StrV fe
          else if c = ''predictor_training_sets'' then IntV tr
          else IntV tm)"

definition new_file :: zipfile where
  "new_file = \<lparr>is_open = True\<rparr>"

definition new_metadata :: "string \<rightharpoonup> cell" where
  "new_metadata =
     [''start_time'' \<mapsto> StrV ''2021-03-01 12:00:00.000000'', ''end_time'' \<mapsto> StrV [],
      ''settings'' \<mapsto> StrV ''{}'', ''version'' \<mapsto> StrV LATEST_HDF5STATE_VERSION]"

definition session :: "cell list \<Rightarrow> (string \<Rightarrow> cell) list \<Rightarrow> state" where
  "session table log =
     \<lparr>read_only = False, f = new_file, settings_metadata = new_metadata,
      results = \<lparr>columns = RESULTS_TABLE_COLUMNS, rows = log\<rparr>, record_table = table\<rparr>"

definition prior_row :: "int \<Rightarrow> int \<Rightarrow> int \<Rightarrow> string \<Rightarrow> cell" where
  "prior_row idx lbl tm = log_row idx lbl ''prior'' ''prior'' ''prior'' ''prior'' (-1) tm"

definition query_row_nb :: "int \<Rightarrow> int \<Rightarrow> int \<Rightarrow> int \<Rightarrow> string \<Rightarrow> cell" where
  "query_row_nb idx lbl tr tm = log_row idx lbl ''nb'' ''max'' ''double'' ''tfidf'' tr tm"

definition three_ids :: "cell list" where
  "three_ids = [IntV 10, IntV 11, IntV 12]"

definition five_ids :: "cell list" where
  "five_ids = [IntV 10, IntV 11, IntV 12, IntV 13, IntV 14]"

text \<open>Two priors, then three queried records; two of them share model and training set.\<close>

definition prefix_log :: "(string \<Rightarrow> cell) list" where
  "prefix_log = [prior_row 0 1 100, prior_row 1 0 100, query_row_nb 2 0 2 200,
                 query_row_nb 3 1 3 300, query_row_nb 4 0 3 400]"

text \<open>A prior row behind a queried record.\<close>

definition interleaved_log :: "(string \<Rightarrow> cell) list" where
  "interleaved_log = [prior_row 0 1 100, query_row_nb 1 0 1 200, prior_row 2 1 300]"



text \<open>A new session whose metadata holds the given version value.\<close>

definition versioned_session :: "cell \<Rightarrow> state" where
  "versioned_session v = (session [] [])\<lparr>settings_metadata := new_metadata(''version'' \<mapsto> v)\<rparr>"


text \<open>Three priors; three priors with different labeling times and one queried record.\<close>

definition three_priors_log :: "(string \<Rightarrow> cell) list" where
  "three_priors_log = [prior_row 0 1 100, prior_row 1 0 100, prior_row 2 1 100]"

definition timed_priors_log :: "(string \<Rightarrow> cell) list" where
  "timed_priors_log = [prior_row 0 1 100, prior_row 1 0 101, prior_row 2 1 102,
                       query_row_nb 3 1 3 200]"




section \<open>Basic facts\<close>

lemmas example_session_defs =
  session_def new_file_def new_metadata_def RESULTS_TABLE_COLUMNS_def LATEST_HDF5STATE_VERSION_def
  prior_row_def query_row_nb_def log_row_def

lemma df_col_present:
  "c \<in> set (columns df) \<Longrightarrow> df_col df c = Inr (map (\<lambda>r. r c) (rows df))"
  by (simp add: df_col_def)

lemma valid_state_columns:
  assumes "is_valid_state s = Inr ()"
  shows "''indices'' \<in> set (columns (results s))"
    and "''labels'' \<in> set (columns (results s))"
    and "''predictor_classifiers'' \<in> set (columns (results s))"
    and "''predictor_query_strategies'' \<in> set (columns (results s))"
    and "''predictor_balance_strategies'' \<in> set (columns (results s))"
    and "''predictor_feature_extraction'' \<in> set (columns (results s))"
    and "''predictor_training_sets'' \<in> set (columns (results s))"
    and "''labeling_times'' \<in> set (columns (results s))"
  using assms
  by (simp_all add: is_valid_state_def RESULTS_TABLE_COLUMNS_def split: if_splits)

lemma session_is_valid: "is_valid_state (session table log) = Inr ()"
  by (simp add: is_valid_state_def session_def RESULTS_TABLE_COLUMNS_def)






section \<open>The number of priors\<close>

lemma count_prior_cells:
  "count_list (map (\<lambda>r. r ''predictor_query_strategies'') rs) (StrV ''prior'')
   = length (filter is_prior rs)"
  by (induction rs) (simp_all add: is_prior_def)

lemma n_priors_value:
  assumes "''predictor_query_strategies'' \<in> set (columns (results s))"
  shows "n_priors s = Inr (if prior_rows s = [] then None else Some (length (prior_rows s)))"
  using assms by (simp add: n_priors_def df_col_present count_prior_cells prior_rows_def)

lemma leading_run_le: "length (takeWhile P xs) \<le> length (filter P xs)"
  by (induction xs) simp_all

lemma leading_run_eq_iff:
  "(length (filter P xs) = length (takeWhile P xs)) = list_all (\<lambda>x. \<not> P x) (dropWhile P xs)"
proof (induction xs)
  case Nil
  then show ?case by simp
next
  case (Cons x xs)
  show ?case
  proof (cases "P x")
    case True
    with Cons show ?thesis by simp
  next
    case False
    then show ?thesis
      by (auto simp: list_all_iff filter_empty_conv)
  qed
qed

text \<open>
  Claim C2, as amended. In a state whose results table has its columns, \<open>n_priors\<close> is
  \<open>None\<close> when no row has the strategy "prior", and otherwise the number of rows with that
  strategy anywhere in the log. The leading prior run is never longer than that, and the
  two are equal exactly when no prior row stands behind the leading run.
\<close>

theorem n_priors_counts_all_prior_rows:
  assumes "is_valid_state s = Inr ()"
  shows "n_priors s = Inr (if prior_rows s = [] then None else Some (length (prior_rows s)))
       \<and> leading_prior_run s \<le> length (prior_rows s)
       \<and> ((length (prior_rows s) = leading_prior_run s)
            = list_all (\<lambda>r. \<not> is_prior r) (rows_after_leading_run s))"
  using valid_state_columns(4) [OF assms]
  by (simp add: n_priors_value leading_run_le leading_run_eq_iff prior_rows_def
      leading_prior_run_def rows_after_leading_run_def)

theorem n_priors_counts_all_prior_rows_witness:
  "is_valid_state (session five_ids prefix_log) = Inr ()
   \<and> n_priors (session five_ids prefix_log) = Inr (Some 2)
   \<and> leading_prior_run (session five_ids prefix_log) = 2"
proof -
  let ?s = "session five_ids prefix_log"
  have len: "length (prior_rows ?s) = 2"
    by (simp add: prior_rows_def is_prior_def prefix_log_def example_session_defs)
  have run: "leading_prior_run ?s = 2"
    by (simp add: leading_prior_run_def is_prior_def prefix_log_def example_session_defs)
  have "n_priors ?s = Inr (if prior_rows ?s = [] then None else Some (length (prior_rows ?s)))"
    using n_priors_counts_all_prior_rows [OF session_is_valid] by blast
  moreover have "prior_rows ?s \<noteq> []"
    using len by auto
  ultimately have "n_priors ?s = Inr (Some 2)"
    using len by simp
  with run show ?thesis
    by (simp add: session_is_valid)
qed

text \<open>
  Claim C2 as stated fails: with a prior row behind a queried record, \<open>n_priors\<close> is 2
  and the leading prior run has length 1.
\<close>

theorem n_priors_leading_run_counterexample:
  "n_priors (session three_ids interleaved_log) = Inr (Some 2)
   \<and> leading_prior_run (session three_ids interleaved_log) = 1"
  by (simp add: n_priors_def df_col_def leading_prior_run_def is_prior_def
      interleaved_log_def example_session_defs)

section \<open>The number of predictor models\<close>






















section \<open>Rejected appends\<close>

lemma lengths_set_card:
  fixes a :: nat
  shows "(card (set [a, b, c, d, e, g]) = 1) = (a = b \<and> b = c \<and> c = d \<and> d = e \<and> e = g)"
proof
  assume "card (set [a, b, c, d, e, g]) = 1"
  then obtain x where "set [a, b, c, d, e, g] = {x}"
    by (auto simp: card_1_singleton_iff)
  then have "a \<in> {x}" "b \<in> {x}" "c \<in> {x}" "d \<in> {x}" "e \<in> {x}" "g \<in> {x}"
    by auto
  then show "a = b \<and> b = c \<and> c = d \<and> d = e \<and> e = g" by simp
next
  assume "a = b \<and> b = c \<and> c = d \<and> d = e \<and> e = g"
  then show "card (set [a, b, c, d, e, g]) = 1" by simp
qed

text \<open>
  Claim C1. When the six input sequences do not all have the same length,
  \<open>add_labeling_data\<close> raises and leaves the whole state as it was, so the number of
  labeled records, every column of the results table and the handle are unchanged. The exception is \<^verbatim>\<open>ValueError\<close> (the spec's ValidationError) in every state
  whose results table has its eight columns, which is every state \<^verbatim>\<open>_create_new_state_file\<close>
  or \<^verbatim>\<open>_restore\<close> hands out; without them \<^verbatim>\<open>_is_valid_state\<close> raises \<^verbatim>\<open>KeyError\<close> first.
\<close>

theorem add_labeling_data_rejects_unequal_lengths:
  assumes unequal: "\<not> (length rids = length labels \<and> length labels = length models
                     \<and> length models = length methods \<and> length methods = length training_sets
                     \<and> length training_sets = length labeling_times)"
  shows "snd (add_labeling_data s rids labels models methods training_sets labeling_times) = s
       \<and> fst (add_labeling_data s rids labels models methods training_sets labeling_times)
           = (if is_valid_state s = Inr () then Inl ValueError else Inl KeyError)
       \<and> n_records_labeled
           (snd (add_labeling_data s rids labels models methods training_sets labeling_times))
           = n_records_labeled s"
proof -
  have card: "card (set [length rids, length labels, length models, length methods,
                         length training_sets, length labeling_times]) \<noteq> 1"
    unfolding lengths_set_card by (rule unequal)
  have res: "add_labeling_data s rids labels models methods training_sets labeling_times
        = (if is_valid_state s = Inr () then (Inl ValueError, s) else (Inl KeyError, s))"
  proof (cases "is_valid_state s")
    case (Inl e)
    then have "e = KeyError"
      by (simp add: is_valid_state_def split: if_splits)
    with Inl show ?thesis
      by (simp add: add_labeling_data_def)
  next
    case (Inr u)
    then show ?thesis
      using card by (simp add: add_labeling_data_def Let_def)
  qed
  show ?thesis
    by (simp add: res)
qed

theorem add_labeling_data_rejects_unequal_lengths_witness:
  "fst (add_labeling_data (session three_ids prefix_log) [IntV 10, IntV 11] [IntV 1] [] [] [] [])
     = Inl ValueError
   \<and> snd (add_labeling_data (session three_ids prefix_log) [IntV 10, IntV 11] [IntV 1] [] [] [] [])
     = session three_ids prefix_log"
  using add_labeling_data_rejects_unequal_lengths
          [of "[IntV 10, IntV 11]" "[IntV 1]" "[]" "[]" "[]" "[]" "session three_ids prefix_log"]
  by (simp add: session_is_valid)

section \<open>Closing\<close>

lemma close_not_read_only:
  "\<not> read_only s \<Longrightarrow> close now s = (Inl AttributeError, s)"
  by (simp add: close_def set_end_time_def zip_getattr_def)

lemma close_read_only:
  "read_only s \<Longrightarrow> close now s = (Inr (), s\<lparr>f := (f s)\<lparr>is_open := False\<rparr>\<rparr>)"
  by (simp add: close_def close_handle_def zip_close_def)

text \<open>
  Claim C9 on the code: \<open>close\<close> on a read-write session, as \<^verbatim>\<open>_create_new_state_file\<close>
  leaves it, raises \<^verbatim>\<open>AttributeError\<close> and returns the session as it was. The handle is
  still open and the \<^verbatim>\<open>end_time\<close> of the metadata document is still the empty string;
  \<^verbatim>\<open>__exit__\<close> raises the same way. The claim expects \<^verbatim>\<open>end_time\<close> set and the handle released.
  (\<open>close_not_read_only\<close> shows the same for every session that is not read-only,
  \<open>close_read_only\<close> that a read-only close closes the handle and changes nothing else.)
\<close>

theorem close_read_write_raises:
  "close 1614600000000000 (session three_ids prefix_log)
     = (Inl AttributeError, session three_ids prefix_log)
   \<and> is_open (f (snd (close 1614600000000000 (session three_ids prefix_log))))
   \<and> settings_metadata (snd (close 1614600000000000 (session three_ids prefix_log))) ''end_time''
       = Some (StrV [])
   \<and> exit_state 1614600000000000 (session three_ids prefix_log)
       = (Inl AttributeError, session three_ids prefix_log)"
proof -
  have rw: "\<not> read_only (session three_ids prefix_log)"
    by (simp add: session_def)
  have res: "close 1614600000000000 (session three_ids prefix_log)
             = (Inl AttributeError, session three_ids prefix_log)"
    using close_not_read_only [OF rw] .
  have "is_open (f (session three_ids prefix_log))"
    by (simp add: session_def new_file_def)
  moreover have "settings_metadata (session three_ids prefix_log) ''end_time'' = Some (StrV [])"
    by (simp add: session_def new_metadata_def)
  ultimately show ?thesis
    by (simp add: res exit_state_def)
qed

section \<open>The version check\<close>

lemma major_token_single:
  assumes "length (major_token v) = 1"
  shows "major_token v = [hd v]"
proof (cases v)
  case Nil
  with assms show ?thesis by (simp add: major_token_def)
next
  case (Cons c cs)
  with assms show ?thesis
    by (cases "c = CHR ''.''") (simp_all add: major_token_def)
qed

lemma versioned_session_version:
  "settings_metadata (versioned_session v) ''version'' = Some v"
  by (simp add: versioned_session_def)

text \<open>
  Claim C5, as amended. For a non-empty document version string and a non-empty
  supported version string, the check is true exactly when their first characters are
  equal; \<open>is_valid_version\<close> is this check against the supported version "1.1". When both
  major tokens are one character long, that is equality of the major tokens.
\<close>

theorem is_valid_version_compares_first_characters:
  assumes ver: "settings_metadata s ''version'' = Some (StrV v)"
      and "v \<noteq> []" and "latest \<noteq> []"
  shows "is_valid_version_for latest s = Inr (hd v = hd latest)
       \<and> is_valid_version s = Inr (hd v = CHR ''1'')
       \<and> (length (major_token v) = 1 \<and> length (major_token latest) = 1
            \<longrightarrow> is_valid_version_for latest s = Inr (major_token v = major_token latest))"
proof -
  obtain c cs where v: "v = c # cs" using assms(2) by (cases v) auto
  obtain d ds where l: "latest = d # ds" using assms(3) by (cases latest) auto
  have first_chars: "is_valid_version_for latest s = Inr (hd v = hd latest)"
    using ver by (simp add: is_valid_version_for_def version_def v l)
  have module_constant: "is_valid_version s = Inr (hd v = CHR ''1'')"
    using ver
    by (simp add: is_valid_version_def is_valid_version_for_def version_def v
        LATEST_HDF5STATE_VERSION_def)
  have "(major_token v = major_token latest) = (hd v = hd latest)"
    if "length (major_token v) = 1" "length (major_token latest) = 1"
    using that by (simp add: major_token_single)
  with first_chars module_constant show ?thesis by simp
qed

theorem is_valid_version_compares_first_characters_witness:
  "is_valid_version (versioned_session (StrV ''1.0'')) = Inr True
   \<and> is_valid_version (versioned_session (StrV ''2.0'')) = Inr False
   \<and> is_valid_version_for ''2.1'' (versioned_session (StrV ''2.0'')) = Inr True"
  using is_valid_version_compares_first_characters
          [OF versioned_session_version, of "''1.0''" "''1.1''"]
        is_valid_version_compares_first_characters
          [OF versioned_session_version, of "''2.0''" "''2.1''"]
  by simp

text \<open>
  Claim C5 as stated fails: a document of version "10.0" passes the check against the
  supported "1.1", and its major token "10" is not the supported major token "1".
\<close>

theorem is_valid_version_major_token_counterexample:
  "is_valid_version (versioned_session (StrV ''10.0'')) = Inr True
   \<and> major_token ''10.0'' = ''10''
   \<and> major_token LATEST_HDF5STATE_VERSION = ''1''"
  by (simp add: is_valid_version_def is_valid_version_for_def version_def
      versioned_session_def LATEST_HDF5STATE_VERSION_def major_token_def)

section \<open>The record index round trip\<close>





section \<open>Reading a column by query number\<close>

lemma np_index_one_within:
  assumes "0 \<le> i" and "i < int (length xs)"
  shows "np_index_one xs i = Inr [xs ! nat i]"
  using assms by (simp add: np_index_one_def Let_def)

lemma np_index_one_below:
  assumes "i < int (length xs)"
  shows "np_index_one xs i =
           (if - int (length xs) \<le> i
            then Inr [xs ! nat (if i < 0 then i + int (length xs) else i)]
            else Inl IndexError)"
proof (cases "- int (length xs) \<le> i")
  case True
  with assms show ?thesis
    by (simp add: np_index_one_def Let_def)
next
  case False
  then have "\<not> (2 ^ 64 - int (length xs) \<le> i)"
    by simp
  with False show ?thesis
    by (simp add: np_index_one_def Let_def)
qed

lemma prior_rows_le: "length (prior_rows s) \<le> length (rows (results s))"
  by (simp add: prior_rows_def)

lemma get_dataset_prior_block:
  assumes col: "c \<in> set (columns (results s))"
      and qs: "''predictor_query_strategies'' \<in> set (columns (results s))"
      and some: "prior_rows s \<noteq> []"
  shows "get_dataset s c (Some 0) None
         = Inr (take (length (prior_rows s)) (map (\<lambda>r. r c) (rows (results s))))"
proof -
  have np: "n_priors s = Inr (Some (length (prior_rows s)))"
    using n_priors_value [OF qs] some by simp
  have sl: "dataset_slice s (Some 0) None = Inr (Range (length (prior_rows s)))"
    by (simp add: dataset_slice_def np)
  show ?thesis
    using prior_rows_le [of s]
    by (simp add: get_dataset_def sl df_col_present [OF col] np_index_def del: take_map)
qed

lemma get_dataset_unknown_priors:
  assumes qs: "''predictor_query_strategies'' \<in> set (columns (results s))"
      and none: "prior_rows s = []"
  shows "get_dataset s c (Some q) None = Inl TypeError"
proof -
  have np: "n_priors s = Inr None"
    using n_priors_value [OF qs] none by simp
  show ?thesis
    by (simp add: get_dataset_def dataset_slice_def np)
qed

text \<open>
  With at least one prior row, \<open>query = 0\<close> reads the first \<open>n_priors\<close> cells of the column.
\<close>

lemma n_priors_some:
  assumes qs: "''predictor_query_strategies'' \<in> set (columns (results s))"
      and np: "n_priors s = Inr (Some n)"
  shows "n = length (prior_rows s)" and "prior_rows s \<noteq> []" and "0 < n"
    and "n \<le> length (rows (results s))"
proof -
  show n: "n = length (prior_rows s)"
    using n_priors_value [OF qs] np by (simp split: if_splits)
  show ne: "prior_rows s \<noteq> []"
    using n_priors_value [OF qs] np by (simp split: if_splits)
  show "0 < n" using n ne by simp
  show "n \<le> length (rows (results s))"
    using n prior_rows_le [of s] by simp
qed

lemma get_dataset_query_zero:
  assumes col: "c \<in> set (columns (results s))"
      and qs: "''predictor_query_strategies'' \<in> set (columns (results s))"
      and np: "n_priors s = Inr (Some n)"
  shows "get_dataset s c (Some 0) None = Inr (take n (map (\<lambda>r. r c) (rows (results s))))"
  using get_dataset_prior_block [OF col qs n_priors_some(2) [OF qs np]]
    n_priors_some(1) [OF qs np] by simp

text \<open>
  Claim C4 on the code: in a new session (no row, so \<open>n_priors\<close> is \<open>None\<close>), reading a
  column with \<open>query = 0\<close> raises \<^verbatim>\<open>TypeError\<close> from \<^verbatim>\<open>range(None)\<close>; the claim expects the
  empty slice. (\<open>get_dataset_unknown_priors\<close> shows the same for every state without
  prior rows, \<open>get_dataset_query_zero\<close> the prior slice where \<open>n_priors\<close> is known.)
\<close>

theorem get_dataset_query_zero_without_priors:
  "n_priors (session three_ids []) = Inr None
   \<and> get_dataset (session three_ids []) ''labels'' (Some 0) None = Inl TypeError"
  by (simp add: get_dataset_def dataset_slice_def n_priors_def df_col_def
      session_def RESULTS_TABLE_COLUMNS_def)

text \<open>
  Claim C8, as amended. \<open>get_dataset\<close> has no check of the query's sign. Supplying a
  query together with a record identifier raises \<^verbatim>\<open>ValueError\<close>. Where \<open>n_priors\<close> is known,
  a negative query with no record identifier, on a column of the table, returns the one
  cell at position \<open>query + n_priors - 1\<close>, counted from the end of the log when that
  number is negative, and raises \<^verbatim>\<open>IndexError\<close> when the number is below \<open>-n\<close> for the \<open>n\<close>
  labeled records.
\<close>

theorem get_dataset_negative_query:
  assumes valid: "is_valid_state s = Inr ()"
      and col: "c \<in> set (columns (results s))"
      and known: "n_priors s = Inr (Some n)"
      and neg: "q < 0"
  shows "get_dataset s c (Some q) (Some rid) = Inl ValueError
       \<and> get_dataset s c (Some q) None =
           (if - int (n_records_labeled s) \<le> q + int n - 1
            then Inr [(rows (results s)
                        ! nat (if q + int n - 1 < 0
                               then q + int n - 1 + int (n_records_labeled s)
                               else q + int n - 1)) c]
            else Inl IndexError)"
proof -
  have qs: "''predictor_query_strategies'' \<in> set (columns (results s))"
    using valid_state_columns(4) [OF valid] .
  have both: "get_dataset s c (Some q) (Some rid) = Inl ValueError"
    by (simp add: get_dataset_def)
  let ?k = "q + int n - 1"
  let ?col = "map (\<lambda>r. r c) (rows (results s))"
  have le: "n \<le> length (rows (results s))"
    using n_priors_some(4) [OF qs known] .
  have below: "?k < int (length ?col)"
    using neg le by simp
  have sl: "dataset_slice s (Some q) None = Inr (Single ?k)"
    using neg by (simp add: dataset_slice_def known)
  have "get_dataset s c (Some q) None = np_index_one ?col ?k"
    by (simp add: get_dataset_def sl df_col_present [OF col] np_index_def)
  also have "\<dots> = (if - int (length ?col) \<le> ?k
                      then Inr [?col ! nat (if ?k < 0 then ?k + int (length ?col) else ?k)]
                      else Inl IndexError)"
    using np_index_one_below [OF below] .
  also have "\<dots> = (if - int (n_records_labeled s) \<le> ?k
                      then Inr [(rows (results s)
                                  ! nat (if ?k < 0 then ?k + int (n_records_labeled s) else ?k)) c]
                      else Inl IndexError)"
    using below by (auto simp add: n_records_labeled_def)
  finally show ?thesis
    using both by simp
qed

theorem get_dataset_negative_query_witness:
  "get_dataset (session five_ids prefix_log) ''labels'' (Some (- 1)) (Some (IntV 10)) = Inl ValueError
   \<and> get_dataset (session five_ids prefix_log) ''labels'' (Some (- 1)) None = Inr [IntV 1]
   \<and> get_dataset (session five_ids prefix_log) ''labels'' (Some (- 2)) None = Inr [IntV 0]
   \<and> get_dataset (session five_ids prefix_log) ''labels'' (Some (- 10)) None = Inl IndexError"
proof -
  let ?s = "session five_ids prefix_log"
  have np: "n_priors ?s = Inr (Some 2)"
    by (simp add: n_priors_def df_col_def prefix_log_def example_session_defs)
  have n: "n_records_labeled ?s = 5"
    by (simp add: n_records_labeled_def session_def prefix_log_def)
  have col: "''labels'' \<in> set (columns (results ?s))"
    by (simp add: session_def RESULTS_TABLE_COLUMNS_def)
  have first_row: "(rows (results ?s) ! 0) ''labels'' = IntV 1"
    by (simp add: prefix_log_def example_session_defs)
  have last_row: "(rows (results ?s) ! 4) ''labels'' = IntV 0"
    by (simp add: prefix_log_def example_session_defs)
  have a: "get_dataset ?s ''labels'' (Some (- 1)) (Some (IntV 10)) = Inl ValueError"
      and b: "get_dataset ?s ''labels'' (Some (- 1)) None = Inr [IntV 1]"
    using get_dataset_negative_query [OF session_is_valid col np, of "- 1" "IntV 10"]
    by (simp_all add: n first_row)
  have c: "get_dataset ?s ''labels'' (Some (- 2)) None = Inr [IntV 0]"
    using get_dataset_negative_query [OF session_is_valid col np, of "- 2" "IntV 10"]
    by (simp add: n last_row)
  have d: "get_dataset ?s ''labels'' (Some (- 10)) None = Inl IndexError"
    using get_dataset_negative_query [OF session_is_valid col np, of "- 10" "IntV 10"]
    by (simp add: n)
  from a b c d show ?thesis by simp
qed

text \<open>
  Claim C8 as stated fails: with three prior rows, the query -1 returns the label of
  row 1.
\<close>

theorem get_dataset_negative_query_counterexample:
  "get_dataset (session three_ids three_priors_log) ''labels'' (Some (- 1)) None = Inr [IntV 0]"
  by (simp add: get_dataset_def dataset_slice_def n_priors_def df_col_def np_index_def
      np_index_one_def three_priors_log_def example_session_defs)

section \<open>Labeling times of the priors\<close>

lemma mapM_all_ok:
  assumes "list_all (\<lambda>x. \<not> isl (g x)) xs"
  shows "mapM g xs = Inr (map (\<lambda>x. projr (g x)) xs)"
  using assms
proof (induction xs)
  case Nil
  then show ?case by simp
next
  case (Cons x xs)
  then obtain y where "g x = Inr y"
    by (cases "g x") simp_all
  with Cons show ?case by simp
qed

lemma last_of_leading_run:
  assumes "0 < length (takeWhile P xs)"
  shows "P (xs ! (length (takeWhile P xs) - 1))"
proof -
  let ?j = "length (takeWhile P xs) - 1"
  have j: "?j < length (takeWhile P xs)" using assms by simp
  then have "takeWhile P xs ! ?j \<in> set (takeWhile P xs)"
    by (rule nth_mem)
  then have "P (takeWhile P xs ! ?j)"
    by (rule set_takeWhileD [THEN conjunct2])
  with j show ?thesis
    by (simp add: takeWhile_nth)
qed

text \<open>
  Claim C10, as amended. In a state whose results table has its columns and that has at
  least one prior row (\<open>n_priors\<close> is \<open>Some n\<close>, the number of prior rows anywhere in the
  log), \<open>get_labeling_time\<close> with \<open>query = 0\<close> returns exactly one element, the labeling
  time of row \<open>n - 1\<close>: as stored for every format other than \<^verbatim>\<open>'datetime'\<close>, and
  converted for \<^verbatim>\<open>'datetime'\<close> when the conversion of the \<open>n\<close> times succeeds. Every other
  accessor, and \<open>get_dataset\<close> on the labeling times themselves, returns for \<open>query = 0\<close>
  the first \<open>n\<close> cells of its column, \<open>n\<close> cells in all: \<open>n\<close> is at least 1 and at most the
  number of labeled records. When no prior row stands behind the leading prior run, the
  first \<open>n\<close> rows are the prior block and row \<open>n - 1\<close> is its last row.
\<close>

theorem get_labeling_time_query_zero:
  assumes valid: "is_valid_state s = Inr ()"
      and np: "n_priors s = Inr (Some n)"
  shows "(fmt \<noteq> ''datetime'' \<longrightarrow>
            get_labeling_time utc s (Some 0) None fmt
              = Inr [(rows (results s) ! (n - 1)) ''labeling_times''])
       \<and> (list_all (\<lambda>r. \<not> isl (utc (r ''labeling_times''))) (take n (rows (results s))) \<longrightarrow>
            get_labeling_time utc s (Some 0) None ''datetime''
              = Inr [projr (utc ((rows (results s) ! (n - 1)) ''labeling_times''))])
       \<and> 0 < n \<and> n \<le> n_records_labeled s
       \<and> length (take n (rows (results s))) = n
       \<and> (list_all (\<lambda>r. \<not> is_prior r) (rows_after_leading_run s) \<longrightarrow>
            take n (rows (results s)) = takeWhile is_prior (rows (results s))
            \<and> n = leading_prior_run s
            \<and> is_prior (rows (results s) ! (n - 1)))
       \<and> get_dataset s ''labeling_times'' (Some 0) None
           = Inr (take n (map (\<lambda>r. r ''labeling_times'') (rows (results s))))
       \<and> get_labels s (Some 0) None
           = Inr (take n (map (\<lambda>r. r ''labels'') (rows (results s))))
       \<and> get_predictor_classifiers s (Some 0) None
           = Inr (take n (map (\<lambda>r. r ''predictor_classifiers'') (rows (results s))))
       \<and> get_predictor_query_strategies s (Some 0) None
           = Inr (take n (map (\<lambda>r. r ''predictor_query_strategies'') (rows (results s))))
       \<and> get_predictor_balance_strategies s (Some 0) None
           = Inr (take n (map (\<lambda>r. r ''predictor_balance_strategies'') (rows (results s))))
       \<and> get_predictor_feature_extraction s (Some 0) None
           = Inr (take n (map (\<lambda>r. r ''predictor_feature_extraction'') (rows (results s))))
       \<and> get_predictor_training_sets s (Some 0) None
           = Inr (take n (map (\<lambda>r. r ''predictor_training_sets'') (rows (results s))))"
proof -
  note cols = valid_state_columns [OF valid]
  note qs = cols(4)
  have pos: "0 < n" and le: "n \<le> length (rows (results s))"
    using n_priors_some(3,4) [OF qs np] by simp_all
  let ?tms = "take n (map (\<lambda>r. r ''labeling_times'') (rows (results s)))"
  have tms: "get_dataset s ''labeling_times'' (Some 0) None = Inr ?tms"
    using get_dataset_query_zero [OF cols(8) qs np] .
  have inside: "0 \<le> int n - 1" "int n - 1 < int (length ?tms)"
               "int n - 1 < int (length (map (\<lambda>x. projr (utc x)) ?tms))"
    using pos le by simp_all
  have last_int: "np_index ?tms (Single (int n - 1))
                  = Inr [(rows (results s) ! (n - 1)) ''labeling_times'']"
    using np_index_one_within [OF inside(1,2)] pos le
    by (simp add: np_index_def nat_diff_distrib del: take_map)
  have int_fmt: "get_labeling_time utc s (Some 0) None fmt
              = Inr [(rows (results s) ! (n - 1)) ''labeling_times'']"
    if "fmt \<noteq> ''datetime''"
    using that by (simp add: get_labeling_time_def tms np last_int del: take_map)
  have dt_fmt: "get_labeling_time utc s (Some 0) None ''datetime''
              = Inr [projr (utc ((rows (results s) ! (n - 1)) ''labeling_times''))]"
    if ok: "list_all (\<lambda>r. \<not> isl (utc (r ''labeling_times''))) (take n (rows (results s)))"
  proof -
    have "list_all (\<lambda>x. \<not> isl (utc x)) ?tms"
      using ok by (simp add: list_all_iff take_map)
    then have conv: "mapM utc ?tms = Inr (map (\<lambda>x. projr (utc x)) ?tms)"
      by (rule mapM_all_ok)
    have "np_index (map (\<lambda>x. projr (utc x)) ?tms) (Single (int n - 1))
          = Inr [projr (utc ((rows (results s) ! (n - 1)) ''labeling_times''))]"
      using np_index_one_within [OF inside(1,3)] pos le
      by (simp add: np_index_def nat_diff_distrib del: take_map)
    then show ?thesis
      by (simp add: get_labeling_time_def tms np conv del: take_map)
  qed
  have block: "take n (rows (results s)) = takeWhile is_prior (rows (results s))
               \<and> n = leading_prior_run s
               \<and> is_prior (rows (results s) ! (n - 1))"
    if pre: "list_all (\<lambda>r. \<not> is_prior r) (rows_after_leading_run s)"
  proof -
    have "length (prior_rows s) = length (takeWhile is_prior (rows (results s)))"
      using pre leading_run_eq_iff [of is_prior "rows (results s)"]
      by (simp add: prior_rows_def rows_after_leading_run_def)
    then have n: "n = length (takeWhile is_prior (rows (results s)))"
      using n_priors_some(1) [OF qs np] by simp
    have "is_prior (rows (results s) ! (n - 1))"
      using last_of_leading_run [of is_prior "rows (results s)"] pos
      unfolding n [symmetric] by simp
    moreover have "take n (rows (results s)) = takeWhile is_prior (rows (results s))"
      unfolding n by (rule takeWhile_eq_take [symmetric])
    ultimately show ?thesis
      using n by (simp add: leading_prior_run_def)
  qed
  have fmts: "(fmt \<noteq> ''datetime'' \<longrightarrow>
                 get_labeling_time utc s (Some 0) None fmt
                   = Inr [(rows (results s) ! (n - 1)) ''labeling_times''])
            \<and> (list_all (\<lambda>r. \<not> isl (utc (r ''labeling_times''))) (take n (rows (results s))) \<longrightarrow>
                 get_labeling_time utc s (Some 0) None ''datetime''
                   = Inr [projr (utc ((rows (results s) ! (n - 1)) ''labeling_times''))])"
    using int_fmt dt_fmt by blast
  have bounds: "0 < n \<and> n \<le> n_records_labeled s \<and> length (take n (rows (results s))) = n"
    using pos le by (simp add: n_records_labeled_def)
  have prior_block: "list_all (\<lambda>r. \<not> is_prior r) (rows_after_leading_run s) \<longrightarrow>
            take n (rows (results s)) = takeWhile is_prior (rows (results s))
            \<and> n = leading_prior_run s
            \<and> is_prior (rows (results s) ! (n - 1))"
    using block by blast
  have accessors: "get_labels s (Some 0) None
           = Inr (take n (map (\<lambda>r. r ''labels'') (rows (results s))))
       \<and> get_predictor_classifiers s (Some 0) None
           = Inr (take n (map (\<lambda>r. r ''predictor_classifiers'') (rows (results s))))
       \<and> get_predictor_query_strategies s (Some 0) None
           = Inr (take n (map (\<lambda>r. r ''predictor_query_strategies'') (rows (results s))))
       \<and> get_predictor_balance_strategies s (Some 0) None
           = Inr (take n (map (\<lambda>r. r ''predictor_balance_strategies'') (rows (results s))))
       \<and> get_predictor_feature_extraction s (Some 0) None
           = Inr (take n (map (\<lambda>r. r ''predictor_feature_extraction'') (rows (results s))))
       \<and> get_predictor_training_sets s (Some 0) None
           = Inr (take n (map (\<lambda>r. r ''predictor_training_sets'') (rows (results s))))"
    using get_dataset_query_zero [OF cols(2) qs np]
      get_dataset_query_zero [OF cols(3) qs np]
      get_dataset_query_zero [OF cols(4) qs np]
      get_dataset_query_zero [OF cols(5) qs np]
      get_dataset_query_zero [OF cols(6) qs np]
      get_dataset_query_zero [OF cols(7) qs np]
    by (simp add: get_labels_def get_predictor_classifiers_def
        get_predictor_query_strategies_def get_predictor_balance_strategies_def
        get_predictor_feature_extraction_def get_predictor_training_sets_def del: take_map)
  from fmts bounds prior_block tms accessors show ?thesis
    by blast
qed

theorem get_labeling_time_query_zero_witness:
  "get_labeling_time Inr (session five_ids timed_priors_log) (Some 0) None ''int'' = Inr [IntV 102]
   \<and> get_labeling_time Inr (session five_ids timed_priors_log) (Some 0) None ''datetime''
       = Inr [IntV 102]
   \<and> is_prior (rows (results (session five_ids timed_priors_log)) ! 2)
   \<and> get_labels (session five_ids timed_priors_log) (Some 0) None = Inr [IntV 1, IntV 0, IntV 1]"
proof -
  let ?s = "session five_ids timed_priors_log"
  have np: "n_priors ?s = Inr (Some 3)"
    by (simp add: n_priors_def df_col_def timed_priors_log_def example_session_defs)
  have row: "(rows (results ?s) ! 2) ''labeling_times'' = IntV 102"
    by (simp add: timed_priors_log_def example_session_defs)
  have labels: "take 3 (map (\<lambda>r. r ''labels'') (rows (results ?s))) = [IntV 1, IntV 0, IntV 1]"
    by (simp add: timed_priors_log_def example_session_defs)
  have fmt: "''int'' \<noteq> ''datetime''" by simp
  have conv: "list_all (\<lambda>r. \<not> isl (Inr (r ''labeling_times'') :: py_error + cell))
                (take 3 (rows (results ?s)))"
    by (simp add: list_all_iff)
  have pre: "list_all (\<lambda>r. \<not> is_prior r) (rows_after_leading_run ?s)"
    by (simp add: rows_after_leading_run_def is_prior_def timed_priors_log_def
        example_session_defs)
  show ?thesis
    using get_labeling_time_query_zero [OF session_is_valid np, of "''int''" Inr]
      row labels fmt conv pre
    by (simp del: take_map)
qed

text \<open>
  Claim C10 as stated fails: with a prior row behind a queried record (labeling times
  100, 200, 300), \<open>n_priors\<close> is 2 and the leading prior run has length 1. The call returns
  the time 200 of row 1, which is not a prior row, and the strategies accessor returns
  the cells of rows 0 and 1, a prior row and a queried one, not the prior block.
\<close>

theorem get_labeling_time_last_prior_counterexample:
  "n_priors (session three_ids interleaved_log) = Inr (Some 2)
   \<and> leading_prior_run (session three_ids interleaved_log) = 1
   \<and> get_labeling_time Inr (session three_ids interleaved_log) (Some 0) None ''int''
       = Inr [IntV 200]
   \<and> \<not> is_prior (rows (results (session three_ids interleaved_log)) ! 1)
   \<and> get_predictor_query_strategies (session three_ids interleaved_log) (Some 0) None
       = Inr [StrV ''prior'', StrV ''max'']"
proof -
  let ?s = "session three_ids interleaved_log"
  have np: "n_priors ?s = Inr (Some 2)"
    by (simp add: n_priors_def df_col_def interleaved_log_def example_session_defs)
  have run: "leading_prior_run ?s = 1"
    by (simp add: leading_prior_run_def is_prior_def interleaved_log_def example_session_defs)
  have tm: "get_labeling_time Inr ?s (Some 0) None ''int'' = Inr [IntV 200]"
    by (simp add: get_labeling_time_def get_dataset_def dataset_slice_def n_priors_def df_col_def
        np_index_def np_index_one_def interleaved_log_def example_session_defs)
  have row: "\<not> is_prior (rows (results ?s) ! 1)"
    by (simp add: is_prior_def interleaved_log_def example_session_defs)
  have strategies: "get_predictor_query_strategies ?s (Some 0) None
                    = Inr [StrV ''prior'', StrV ''max'']"
    by (simp add: get_predictor_query_strategies_def get_dataset_def dataset_slice_def
        n_priors_def df_col_def np_index_def interleaved_log_def example_session_defs)
  from np run tm row strategies show ?thesis by simp
qed

section \<open>Storing a feature matrix\<close>



end
